theory Spec2Isabelle
  imports Main "HOL-Library.Multiset"
begin

section \<open>Data model of the rate-limit route handler\<close>

text \<open>
  The development embeds \<^verbatim>\<open>src/helpers/RateLimitRouteHandler.ts\<close>. JavaScript numbers
  that hold counts and limits are integers here; a \<^verbatim>\<open>Date\<close> is its time value, the number
  of milliseconds since the epoch (only valid dates occur: they are read from timestamp
  columns). A thrown value is an \<^verbatim>\<open>Error\<close> with its message. The configuration is a
  plain object: reading a property of it finds its own entries and, for a name it does
  not have itself, the member of that name inherited from \<^verbatim>\<open>Object.prototype\<close>.
\<close>

type_synonym Date = int

datatype exn = Error string

datatype PeriodType = HOURLY | DAILY | MONTHLY

text \<open>The API's \<^verbatim>\<open>number | null\<close>.\<close>

datatype api_number = Null | Num int

text \<open>
  One value per period. The internal \<^verbatim>\<open>RateLimits\<close> has optional numbers, where
  \<^verbatim>\<open>undefined\<close> (here \<open>None\<close>) means unlimited; the API's \<^verbatim>\<open>RateLimits\<close> has
  \<^verbatim>\<open>number | null\<close>; \<^verbatim>\<open>RateLimitUsage\<close> has plain numbers.
\<close>

record 'a periods =
  hourly :: 'a
  daily :: 'a
  monthly :: 'a

type_synonym InternalRateLimits = "int option periods"
type_synonym ApiRateLimits = "api_number periods"
type_synonym RateLimitUsage = "int periods"

text \<open>
  \<^verbatim>\<open>RateLimitsConfig\<close> is an object keyed by entitlement; the association list holds its
  entries in the order of \<^verbatim>\<open>Object.entries\<close>.
\<close>

type_synonym RateLimitsConfig = "(string \<times> InternalRateLimits) list"

record SubscriptionInfo =
  entitlements :: "string list"
  subscriptionStartedAt :: "Date option"

record RateLimitCheckResult =
  allowed :: bool
  remaining :: "int option periods"

record HistoryRow =
  period_start :: Date
  period_end :: Date
  request_count :: int

text \<open>The result of \<^verbatim>\<open>getHistory\<close>; the source reads its \<^verbatim>\<open>entries\<close>.\<close>

record RateLimitHistory =
  history_entries :: "HistoryRow list"

record RateLimitTier =
  entitlement :: string
  displayName :: string
  limits :: ApiRateLimits

record RateLimitsConfigData =
  tiers :: "RateLimitTier list"
  currentEntitlement :: string
  currentLimits :: ApiRateLimits
  currentUsage :: RateLimitUsage

record RateLimitHistoryEntry =
  periodStart :: string
  periodEnd :: string
  requestCount :: int
  limit :: api_number

record RateLimitHistoryData =
  periodType :: string
  entries :: "RateLimitHistoryEntry list"
  totalEntries :: nat

subsection \<open>The collaborators\<close>

text \<open>
  The three helper classes are external to the handler. Each is the behaviour of its
  methods: a call returns a value (\<open>Inr\<close>) or throws (\<open>Inl\<close>). The handler calls each
  method at most once per request, so a method is a function of its arguments.
  \<^verbatim>\<open>getRateLimits\<close> is synchronous and never fails.
\<close>

record RevenueCatHelper =
  getSubscriptionInfo :: "string \<Rightarrow> exn + SubscriptionInfo"

record EntitlementHelper =
  getRateLimits :: "string list \<Rightarrow> InternalRateLimits"

record RateLimitChecker =
  checkOnly :: "string \<Rightarrow> InternalRateLimits \<Rightarrow> Date option \<Rightarrow> exn + RateLimitCheckResult"
  getHistory :: "string \<Rightarrow> PeriodType \<Rightarrow> Date option \<Rightarrow> int \<Rightarrow> exn + RateLimitHistory"

record RateLimitRouteHandler =
  rcHelper :: RevenueCatHelper
  entitlementHelper :: EntitlementHelper
  rateLimitChecker :: RateLimitChecker
  rateLimitsConfig :: RateLimitsConfig
  displayNames :: "(string \<times> string) list"

text \<open>
  What a request does to the outside, in order: the calls to the collaborators and the
  lines written with \<^verbatim>\<open>console.error\<close>.
\<close>

datatype effect =
  CallGetSubscriptionInfo string
| CallCheckOnly string InternalRateLimits "Date option"
| CallGetHistory string PeriodType "Date option" int
| ConsoleError string exn

text \<open>Modelled from the spec: the constant \<^verbatim>\<open>NONE_ENTITLEMENT\<close> of \<^verbatim>\<open>../types\<close>, the
  mandatory fallback tier "none".\<close>

definition NONE_ENTITLEMENT :: string where
  "NONE_ENTITLEMENT = ''none''"

definition DEFAULT_DISPLAY_NAMES :: "(string \<times> string) list" where
  "DEFAULT_DISPLAY_NAMES =
     [(''none'', ''Free''), (''starter'', ''Starter''), (''pro'', ''Pro''),
      (''enterprise'', ''Enterprise'')]"

text \<open>
  The constructor: the display names are the defaults overridden by the configured ones
  (the object spread; an absent \<^verbatim>\<open>entitlementDisplayNames\<close> adds nothing). Lookup takes
  the first entry for a key, so the overriding entries come first.
\<close>

definition new_RateLimitRouteHandler ::
  "RevenueCatHelper \<Rightarrow> EntitlementHelper \<Rightarrow> RateLimitChecker \<Rightarrow> RateLimitsConfig \<Rightarrow>
     (string \<times> string) list option \<Rightarrow> RateLimitRouteHandler" where
  "new_RateLimitRouteHandler rc eh chk config entitlementDisplayNames =
     \<lparr>rcHelper = rc, entitlementHelper = eh, rateLimitChecker = chk,
      rateLimitsConfig = config,
      displayNames =
        (case entitlementDisplayNames of None \<Rightarrow> [] | Some names \<Rightarrow> names)
        @ DEFAULT_DISPLAY_NAMES\<rparr>"

section \<open>Private helpers of the handler\<close>

text \<open>\<^verbatim>\<open>toUpperCase\<close> on a character, for ASCII letters.\<close>

definition toUpperCase :: "char \<Rightarrow> char" where
  "toUpperCase c =
     (if 97 \<le> (of_char c :: nat) \<and> (of_char c :: nat) \<le> 122
      then char_of ((of_char c :: nat) - 32) else c)"

text \<open>
  \<^verbatim>\<open>getDisplayName\<close>: the configured name when it is truthy (present and not the empty
  string), else the entitlement with its first letter capitalised. The endpoint applies
  it to the keys of the configuration; the definition covers keys that are not names of
  members of \<^verbatim>\<open>Object.prototype\<close> (for such a key without a configured name the lookup
  yields the inherited member, which is not a string).
\<close>

definition getDisplayName :: "RateLimitRouteHandler \<Rightarrow> string \<Rightarrow> string" where
  "getDisplayName this ent =
     (case map_of (displayNames this) ent of
        Some name \<Rightarrow>
          if name \<noteq> [] then name
          else (case ent of [] \<Rightarrow> [] | c # cs \<Rightarrow> toUpperCase c # cs)
      | None \<Rightarrow> (case ent of [] \<Rightarrow> [] | c # cs \<Rightarrow> toUpperCase c # cs))"

text \<open>
  The names of the members of \<^verbatim>\<open>Object.prototype\<close>, which every plain object inherits.
  Each is a function, but for \<^verbatim>\<open>__proto__\<close>, which reads as the prototype object; all
  are truthy.
\<close>

definition Object_prototype_members :: "string list" where
  "Object_prototype_members =
     [''constructor'', ''__defineGetter__'', ''__defineSetter__'', ''hasOwnProperty'',
      ''__lookupGetter__'', ''__lookupSetter__'', ''isPrototypeOf'',
      ''propertyIsEnumerable'', ''toString'', ''valueOf'', ''__proto__'',
      ''toLocaleString'']"

text \<open>
  The truthiness of \<^verbatim>\<open>this.rateLimitsConfig[entitlement]\<close>: an entry of the configuration
  is an object, hence truthy; a name without an entry reads as the inherited member when
  there is one, which is truthy too, and as \<^verbatim>\<open>undefined\<close> otherwise.
\<close>

definition config_property_truthy :: "RateLimitsConfig \<Rightarrow> string \<Rightarrow> bool" where
  "config_property_truthy config key =
     (case map_of config key of
        Some ls \<Rightarrow> True
      | None \<Rightarrow> key \<in> set Object_prototype_members)"

text \<open>
  \<^verbatim>\<open>getPrimaryEntitlement\<close>: the loop returns at the first entitlement that is not
  \<^verbatim>\<open>NONE_ENTITLEMENT\<close> and for which \<^verbatim>\<open>this.rateLimitsConfig[entitlement]\<close> is truthy.
\<close>

fun getPrimaryEntitlement :: "RateLimitRouteHandler \<Rightarrow> string list \<Rightarrow> string" where
  "getPrimaryEntitlement this [] = NONE_ENTITLEMENT"
| "getPrimaryEntitlement this (e # es) =
     (if e \<noteq> NONE_ENTITLEMENT \<and> config_property_truthy (rateLimitsConfig this) e then e
      else getPrimaryEntitlement this es)"

text \<open>The operator \<^verbatim>\<open>x ?? null\<close> on an optional number.\<close>

definition nullish_null :: "int option \<Rightarrow> api_number" where
  "nullish_null x = (case x of None \<Rightarrow> Null | Some n \<Rightarrow> Num n)"

definition convertLimits :: "InternalRateLimits \<Rightarrow> ApiRateLimits" where
  "convertLimits ls =
     \<lparr>hourly = nullish_null (hourly ls),
      daily = nullish_null (daily ls),
      monthly = nullish_null (monthly ls)\<rparr>"

definition convertPeriodType :: "string \<Rightarrow> exn + PeriodType" where
  "convertPeriodType p =
     (if p = ''hour'' then Inr HOURLY
      else if p = ''day'' then Inr DAILY
      else if p = ''month'' then Inr MONTHLY
      else Inl (Error (''Invalid period type: '' @ p)))"

definition getLimitForPeriod :: "InternalRateLimits \<Rightarrow> string \<Rightarrow> api_number" where
  "getLimitForPeriod ls p =
     (if p = ''hour'' then nullish_null (hourly ls)
      else if p = ''day'' then nullish_null (daily ls)
      else if p = ''month'' then nullish_null (monthly ls)
      else Null)"

subsection \<open>\<^verbatim>\<open>Date.prototype.toISOString\<close>\<close>

fun pad :: "nat \<Rightarrow> int \<Rightarrow> string" where
  "pad 0 n = []"
| "pad (Suc w) n = pad w (n div 10) @ [char_of (48 + n mod 10)]"

text \<open>Year, month and day of a day number counted from 1970-01-01 (proleptic Gregorian).\<close>

definition civil_from_days :: "int \<Rightarrow> int \<times> int \<times> int" where
  "civil_from_days z0 =
     (let z = z0 + 719468;
          era = z div 146097;
          doe = z - era * 146097;
          yoe = (doe - doe div 1460 + doe div 36524 - doe div 146096) div 365;
          doy = doe - (365 * yoe + yoe div 4 - yoe div 100);
          mp = (5 * doy + 2) div 153;
          d = doy - (153 * mp + 2) div 5 + 1;
          m = (if mp < 10 then mp + 3 else mp - 9);
          y = yoe + era * 400 + (if m \<le> 2 then 1 else 0)
      in (y, m, d))"

definition toISOString :: "Date \<Rightarrow> string" where
  "toISOString t =
     (let ms = t mod 86400000;
          (y, m, d) = civil_from_days (t div 86400000);
          year = (if 0 \<le> y \<and> y \<le> 9999 then pad 4 y
                  else (if y < 0 then ''-'' else ''+'') @ pad 6 (abs y))
      in year @ ''-'' @ pad 2 m @ ''-'' @ pad 2 d @ ''T'' @ pad 2 (ms div 3600000) @ '':''
         @ pad 2 (ms div 60000 mod 60) @ '':'' @ pad 2 (ms div 1000 mod 60) @ ''.''
         @ pad 3 (ms mod 1000) @ ''Z'')"

section \<open>The two endpoints\<close>

text \<open>
  \<^verbatim>\<open>getRateLimitsConfigData\<close>. The result pairs the effects of the request with its
  outcome. The \<^verbatim>\<open>try\<close> block catches whatever \<^verbatim>\<open>getSubscriptionInfo\<close> throws, logs it
  and continues with the entitlement list \<^verbatim>\<open>[NONE_ENTITLEMENT]\<close>; the call of
  \<^verbatim>\<open>checkOnly\<close> is outside any \<^verbatim>\<open>try\<close>.
\<close>

definition getRateLimitsConfigData ::
  "RateLimitRouteHandler \<Rightarrow> string \<Rightarrow> effect list \<times> (exn + RateLimitsConfigData)" where
  "getRateLimitsConfigData this userId =
     (let tiers0 = map (\<lambda>(ent, ls).
            \<lparr>entitlement = ent, displayName = getDisplayName this ent,
             limits = convertLimits ls\<rparr>) (rateLimitsConfig this);
          (fx, ents, startedAt) =
            (case getSubscriptionInfo (rcHelper this) userId of
               Inr subscriptionInfo \<Rightarrow>
                 ([CallGetSubscriptionInfo userId],
                  entitlements subscriptionInfo, subscriptionStartedAt subscriptionInfo)
             | Inl error \<Rightarrow>
                 ([CallGetSubscriptionInfo userId,
                   ConsoleError (''RevenueCat error, using '' @ [CHR 0x27] @ ''none''
                                 @ [CHR 0x27] @ '' entitlement:'') error],
                  [NONE_ENTITLEMENT], None));
          currentEntitlement0 = getPrimaryEntitlement this ents;
          internalLimits = getRateLimits (entitlementHelper this) ents;
          currentLimits0 = convertLimits internalLimits;
          fx' = fx @ [CallCheckOnly userId internalLimits startedAt]
      in case checkOnly (rateLimitChecker this) userId internalLimits startedAt of
           Inl e \<Rightarrow> (fx', Inl e)
         | Inr checkResult \<Rightarrow>
             (fx', Inr
               \<lparr>tiers = tiers0,
                currentEntitlement = currentEntitlement0,
                currentLimits = currentLimits0,
                currentUsage =
                  \<lparr>hourly =
                     (case hourly internalLimits of
                        Some n \<Rightarrow> n - (case hourly (remaining checkResult) of
                                         Some r \<Rightarrow> r | None \<Rightarrow> 0)
                      | None \<Rightarrow> 0),
                   daily =
                     (case daily internalLimits of
                        Some n \<Rightarrow> n - (case daily (remaining checkResult) of
                                         Some r \<Rightarrow> r | None \<Rightarrow> 0)
                      | None \<Rightarrow> 0),
                   monthly =
                     (case monthly internalLimits of
                        Some n \<Rightarrow> n - (case monthly (remaining checkResult) of
                                         Some r \<Rightarrow> r | None \<Rightarrow> 0)
                      | None \<Rightarrow> 0)\<rparr>\<rparr>))"

text \<open>
  \<^verbatim>\<open>getRateLimitHistoryData\<close>. The parameter \<^verbatim>\<open>limit\<close> defaults to 100 when the caller
  omits it. \<^verbatim>\<open>convertPeriodType\<close> runs first and its exception leaves the function; the
  exception of \<^verbatim>\<open>getSubscriptionInfo\<close> is caught and logged, keeping the initial values
  \<^verbatim>\<open>null\<close> and \<^verbatim>\<open>[NONE_ENTITLEMENT]\<close>; \<^verbatim>\<open>getHistory\<close> is called outside any \<^verbatim>\<open>try\<close>.
\<close>

definition getRateLimitHistoryData ::
  "RateLimitRouteHandler \<Rightarrow> string \<Rightarrow> string \<Rightarrow> int option \<Rightarrow>
     effect list \<times> (exn + RateLimitHistoryData)" where
  "getRateLimitHistoryData this userId pt limit_arg =
     (let limit0 = (case limit_arg of None \<Rightarrow> 100 | Some n \<Rightarrow> n)
      in case convertPeriodType pt of
           Inl e \<Rightarrow> ([], Inl e)
         | Inr internalPeriodType \<Rightarrow>
             (let (fx, startedAt, ents) =
                    (case getSubscriptionInfo (rcHelper this) userId of
                       Inr subscriptionInfo \<Rightarrow>
                         ([CallGetSubscriptionInfo userId],
                          subscriptionStartedAt subscriptionInfo,
                          entitlements subscriptionInfo)
                     | Inl error \<Rightarrow>
                         ([CallGetSubscriptionInfo userId,
                           ConsoleError ''RevenueCat error:'' error],
                          None, [NONE_ENTITLEMENT]));
                  internalLimits = getRateLimits (entitlementHelper this) ents;
                  periodLimit = getLimitForPeriod internalLimits pt;
                  fx' = fx @ [CallGetHistory userId internalPeriodType startedAt limit0]
              in case getHistory (rateLimitChecker this) userId internalPeriodType
                        startedAt limit0 of
                   Inl e \<Rightarrow> (fx', Inl e)
                 | Inr history \<Rightarrow>
                     (let entries0 = map (\<lambda>entry.
                            \<lparr>periodStart = toISOString (period_start entry),
                             periodEnd = toISOString (period_end entry),
                             requestCount = request_count entry,
                             limit = periodLimit\<rparr>) (history_entries history)
                      in (fx', Inr \<lparr>periodType = pt, entries = entries0,
                                    totalEntries = length entries0\<rparr>))))"

section \<open>Specification-level notions\<close>

text \<open>
  The entitlement list and the subscription start with which a request continues after
  the \<^verbatim>\<open>try\<close> block: those of the subscription when \<^verbatim>\<open>getSubscriptionInfo\<close> returns,
  \<^verbatim>\<open>[NONE_ENTITLEMENT]\<close> and \<^verbatim>\<open>null\<close> when it throws.
\<close>

definition subscription_or_none ::
  "RateLimitRouteHandler \<Rightarrow> string \<Rightarrow> string list \<times> Date option" where
  "subscription_or_none this userId =
     (case getSubscriptionInfo (rcHelper this) userId of
        Inr subscriptionInfo \<Rightarrow>
          (entitlements subscriptionInfo, subscriptionStartedAt subscriptionInfo)
      | Inl error \<Rightarrow> ([NONE_ENTITLEMENT], None))"

text \<open>The calls to durable storage among the effects of a request.\<close>

fun is_storage_call :: "effect \<Rightarrow> bool" where
  "is_storage_call (CallCheckOnly u ls s) = True"
| "is_storage_call (CallGetHistory u p s n) = True"
| "is_storage_call (CallGetSubscriptionInfo u) = False"
| "is_storage_call (ConsoleError m e) = False"

definition storage_calls :: "effect list \<Rightarrow> effect list" where
  "storage_calls fx = filter is_storage_call fx"

section \<open>The Quota Resolver\<close>

text \<open>Modelled from the spec: the merge of two limits of one period, which is not under
  src/. Unbounded beats any finite number; among finite numbers the maximum wins.\<close>

definition merge_limit :: "int option \<Rightarrow> int option \<Rightarrow> int option" where
  "merge_limit a b =
     (case a of None \<Rightarrow> None
      | Some x \<Rightarrow> (case b of None \<Rightarrow> None | Some y \<Rightarrow> Some (max x y)))"

text \<open>Modelled from the spec: the merge of two limit triples, per period independently
  (not under src/).\<close>

definition merge_limits :: "InternalRateLimits \<Rightarrow> InternalRateLimits \<Rightarrow> InternalRateLimits" where
  "merge_limits a b =
     \<lparr>hourly = merge_limit (hourly a) (hourly b),
      daily = merge_limit (daily a) (daily b),
      monthly = merge_limit (monthly a) (monthly b)\<rparr>"

text \<open>Modelled from the spec: the limit triples of the tags that exist in the
  configuration; tags that do not are ignored (not under src/).\<close>

definition applicable :: "string list \<Rightarrow> RateLimitsConfig \<Rightarrow> InternalRateLimits list" where
  "applicable tags config =
     concat (map (\<lambda>t. case map_of config t of None \<Rightarrow> [] | Some ls \<Rightarrow> [ls]) tags)"

text \<open>Modelled from the spec: \<^verbatim>\<open>resolve(tags, config)\<close> of the Quota Resolver, the
  \<^verbatim>\<open>getRateLimits\<close> of the class \<^verbatim>\<open>EntitlementHelper\<close>, which is not under src/. The
  gathered triples are merged; when no supplied tag is present in the configuration the
  result is the entry of "none". The result is \<open>None\<close> only in the configuration error
  that this entry is missing.\<close>

definition resolve :: "string list \<Rightarrow> RateLimitsConfig \<Rightarrow> InternalRateLimits option" where
  "resolve tags config =
     (case applicable tags config of
        [] \<Rightarrow> map_of config NONE_ENTITLEMENT
      | ls # rest \<Rightarrow> Some (foldl merge_limits ls rest))"

section \<open>The history query of the Counter Store\<close>

text \<open>A counter row of durable storage, keyed by user, period type and window start.\<close>

record CounterRecord =
  cr_userId :: string
  cr_periodType :: PeriodType
  cr_periodStart :: Date
  cr_requestCount :: int
  cr_createdAt :: Date
  cr_updatedAt :: Date

text \<open>The key triple of a row; durable storage keeps it unique.\<close>

definition cr_key :: "CounterRecord \<Rightarrow> string \<times> PeriodType \<times> Date" where
  "cr_key r = (cr_userId r, cr_periodType r, cr_periodStart r)"

text \<open>Modelled from the spec: the list query of Durable Storage, which is not under
  src/: the rows of a user and period type, ordered by window start descending, with a
  cap on the number of rows.\<close>

definition query_counters ::
  "CounterRecord list \<Rightarrow> string \<Rightarrow> PeriodType \<Rightarrow> int \<Rightarrow> CounterRecord list" where
  "query_counters table userId pt n =
     take (nat n)
       (rev (sort_key cr_periodStart
          (filter (\<lambda>r. cr_userId r = userId \<and> cr_periodType r = pt) table)))"

text \<open>Modelled from the spec: \<^verbatim>\<open>getHistory\<close> of the class \<^verbatim>\<open>RateLimitChecker\<close>, which
  is not under src/. Durable storage is either unavailable, with the error it raises, or
  the table of counter rows. The history is the result of the list query; the end of
  each window comes from the Time-Window Calculator, the parameter \<open>windowEnd\<close>.\<close>

definition RateLimitChecker_getHistory ::
  "(PeriodType \<Rightarrow> Date option \<Rightarrow> Date \<Rightarrow> Date) \<Rightarrow> exn + CounterRecord list \<Rightarrow>
     string \<Rightarrow> PeriodType \<Rightarrow> Date option \<Rightarrow> int \<Rightarrow> exn + RateLimitHistory" where
  "RateLimitChecker_getHistory windowEnd storage userId pt anchor n =
     (case storage of
        Inl e \<Rightarrow> Inl e
      | Inr table \<Rightarrow>
          Inr \<lparr>history_entries =
            map (\<lambda>r. \<lparr>period_start = cr_periodStart r,
                       period_end = windowEnd pt anchor (cr_periodStart r),
                       request_count = cr_requestCount r\<rparr>)
              (query_counters table userId pt n)\<rparr>)"

section \<open>A running example\<close>

text \<open>The configuration of the spec's scenario.\<close>

definition example_config :: RateLimitsConfig where
  "example_config =
     [(''none'', \<lparr>hourly = Some 5, daily = Some 20, monthly = Some 100\<rparr>),
      (''starter'', \<lparr>hourly = Some 10, daily = Some 50, monthly = Some 500\<rparr>),
      (''pro'', \<lparr>hourly = None, daily = None, monthly = None\<rparr>)]"

text \<open>Windows of a fixed length per period type, which is all the examples need.\<close>

definition example_windowEnd :: "PeriodType \<Rightarrow> Date option \<Rightarrow> Date \<Rightarrow> Date" where
  "example_windowEnd pt anchor start =
     start + (case pt of HOURLY \<Rightarrow> 3600000 | DAILY \<Rightarrow> 86400000 | MONTHLY \<Rightarrow> 2592000000)"

definition example_table :: "CounterRecord list" where
  "example_table =
     [\<lparr>cr_userId = ''u1'', cr_periodType = HOURLY, cr_periodStart = 1704067200000,
       cr_requestCount = 3, cr_createdAt = 1704067260000, cr_updatedAt = 1704069000000\<rparr>,
      \<lparr>cr_userId = ''u1'', cr_periodType = HOURLY, cr_periodStart = 1704074400000,
       cr_requestCount = 0, cr_createdAt = 1704074400500, cr_updatedAt = 1704074400500\<rparr>,
      \<lparr>cr_userId = ''u2'', cr_periodType = HOURLY, cr_periodStart = 1704067200000,
       cr_requestCount = 9, cr_createdAt = 1704067200100, cr_updatedAt = 1704067900000\<rparr>,
      \<lparr>cr_userId = ''u1'', cr_periodType = DAILY, cr_periodStart = 1704067200000,
       cr_requestCount = 3, cr_createdAt = 1704067260000, cr_updatedAt = 1704069000000\<rparr>]"

text \<open>An example \<^verbatim>\<open>checkOnly\<close>: two requests were counted in every limited window.\<close>

definition example_checker :: "exn + CounterRecord list \<Rightarrow> RateLimitChecker" where
  "example_checker storage =
     \<lparr>checkOnly = (\<lambda>userId ls anchor.
         case storage of
           Inl e \<Rightarrow> Inl e
         | Inr table \<Rightarrow>
             Inr \<lparr>allowed = True,
                  remaining = \<lparr>hourly = map_option (\<lambda>n. n - 2) (hourly ls),
                               daily = map_option (\<lambda>n. n - 2) (daily ls),
                               monthly = map_option (\<lambda>n. n - 2) (monthly ls)\<rparr>\<rparr>),
      getHistory = RateLimitChecker_getHistory example_windowEnd storage\<rparr>"

text \<open>The resolver over the example configuration (which has the entry "none", so the
  last case is not reached).\<close>

definition example_entitlementHelper :: EntitlementHelper where
  "example_entitlementHelper =
     \<lparr>getRateLimits = (\<lambda>tags.
        case resolve tags example_config of
          Some ls \<Rightarrow> ls
        | None \<Rightarrow> \<lparr>hourly = None, daily = None, monthly = None\<rparr>)\<rparr>"

definition example_handler ::
  "(string \<Rightarrow> exn + SubscriptionInfo) \<Rightarrow> exn + CounterRecord list \<Rightarrow> RateLimitRouteHandler" where
  "example_handler subscriptions storage =
     new_RateLimitRouteHandler \<lparr>getSubscriptionInfo = subscriptions\<rparr>
       example_entitlementHelper (example_checker storage) example_config None"

text \<open>A subscriber of two tiers, and an Entitlement Source that is down.\<close>

definition starter_pro :: "string \<Rightarrow> exn + SubscriptionInfo" where
  "starter_pro userId =
     Inr \<lparr>entitlements = [''starter'', ''pro''], subscriptionStartedAt = Some 1700000000000\<rparr>"

definition starter_only :: "string \<Rightarrow> exn + SubscriptionInfo" where
  "starter_only userId =
     Inr \<lparr>entitlements = [''starter''], subscriptionStartedAt = Some 1700000000000\<rparr>"

text \<open>A subscriber whose only paid tier is not in the configuration.\<close>

definition gold_none :: "string \<Rightarrow> exn + SubscriptionInfo" where
  "gold_none userId =
     Inr \<lparr>entitlements = [''gold'', ''none''], subscriptionStartedAt = None\<rparr>"

text \<open>Subscribers with an entitlement whose identifier is the name of a member of
  \<^verbatim>\<open>Object.prototype\<close>.\<close>

definition toString_only :: "string \<Rightarrow> exn + SubscriptionInfo" where
  "toString_only userId =
     Inr \<lparr>entitlements = [''toString''], subscriptionStartedAt = None\<rparr>"

definition constructor_starter :: "string \<Rightarrow> exn + SubscriptionInfo" where
  "constructor_starter userId =
     Inr \<lparr>entitlements = [''constructor'', ''starter''],
          subscriptionStartedAt = Some 1700000000000\<rparr>"

definition source_down :: "string \<Rightarrow> exn + SubscriptionInfo" where
  "source_down userId = Inl (Error ''RevenueCat API error: 503'')"

text \<open>An Entitlement Source that answers every user with the tier "none" and no
  subscription start.\<close>

definition none_subscription :: RevenueCatHelper where
  "none_subscription =
     \<lparr>getSubscriptionInfo =
        (\<lambda>userId. Inr \<lparr>entitlements = [NONE_ENTITLEMENT], subscriptionStartedAt = None\<rparr>)\<rparr>"

section \<open>Properties of the private helpers\<close>

lemmas example_defs =
  example_handler_def new_RateLimitRouteHandler_def example_checker_def
  example_entitlementHelper_def example_config_def example_table_def example_windowEnd_def
  resolve_def applicable_def merge_limits_def merge_limit_def NONE_ENTITLEMENT_def
  DEFAULT_DISPLAY_NAMES_def getDisplayName_def convertLimits_def nullish_null_def
  getLimitForPeriod_def convertPeriodType_def RateLimitChecker_getHistory_def
  query_counters_def starter_pro_def starter_only_def gold_none_def
  toString_only_def constructor_starter_def source_down_def
  config_property_truthy_def Object_prototype_members_def

lemma nullish_null_Null: "(nullish_null x = Null) = (x = None)"
  by (cases x) (simp_all add: nullish_null_def)

lemma nullish_null_Num: "(nullish_null x = Num n) = (x = Some n)"
  by (cases x) (simp_all add: nullish_null_def)

lemma toISOString_examples:
  "toISOString 0 = ''1970-01-01T00:00:00.000Z''"
  "toISOString 951868799999 = ''2000-02-29T23:59:59.999Z''"
  "toISOString 1704067200000 = ''2024-01-01T00:00:00.000Z''"
  "toISOString 1704070800000 = ''2024-01-01T01:00:00.000Z''"
  "toISOString 1704074400000 = ''2024-01-01T02:00:00.000Z''"
  "toISOString 1704078000000 = ''2024-01-01T03:00:00.000Z''"
  by code_simp+

text \<open>
  Claim C5. The conversion to the API maps an unlimited period (\<^verbatim>\<open>undefined\<close>) to
  \<^verbatim>\<open>null\<close> and a finite limit \<open>n\<close> to \<open>n\<close> itself, in \<^verbatim>\<open>convertLimits\<close> and in
  \<^verbatim>\<open>getLimitForPeriod\<close>: the API value is \<^verbatim>\<open>null\<close> exactly when the period is unlimited
  and is the number \<open>n\<close> exactly when the limit is \<open>n\<close>, so an unlimited period is never
  reported as 0 nor as any other number.
\<close>

theorem unbounded_is_null_finite_is_itself:
  "(hourly (convertLimits ls) = Null) = (hourly ls = None) \<and>
   (hourly (convertLimits ls) = Num n) = (hourly ls = Some n) \<and>
   (daily (convertLimits ls) = Null) = (daily ls = None) \<and>
   (daily (convertLimits ls) = Num n) = (daily ls = Some n) \<and>
   (monthly (convertLimits ls) = Null) = (monthly ls = None) \<and>
   (monthly (convertLimits ls) = Num n) = (monthly ls = Some n) \<and>
   (getLimitForPeriod ls ''hour'' = Null) = (hourly ls = None) \<and>
   (getLimitForPeriod ls ''hour'' = Num n) = (hourly ls = Some n) \<and>
   (getLimitForPeriod ls ''day'' = Null) = (daily ls = None) \<and>
   (getLimitForPeriod ls ''day'' = Num n) = (daily ls = Some n) \<and>
   (getLimitForPeriod ls ''month'' = Null) = (monthly ls = None) \<and>
   (getLimitForPeriod ls ''month'' = Num n) = (monthly ls = Some n)"
  by (simp add: convertLimits_def getLimitForPeriod_def nullish_null_Null nullish_null_Num)

theorem unbounded_is_null_finite_is_itself_witness:
  "hourly (convertLimits \<lparr>hourly = None, daily = Some 0, monthly = Some 7\<rparr>) = Null \<and>
   daily (convertLimits \<lparr>hourly = None, daily = Some 0, monthly = Some 7\<rparr>) = Num 0 \<and>
   getLimitForPeriod \<lparr>hourly = None, daily = Some 0, monthly = Some 7\<rparr> ''hour'' \<noteq> Num 0 \<and>
   getLimitForPeriod \<lparr>hourly = None, daily = Some 0, monthly = Some 7\<rparr> ''month'' = Num 7"
  using unbounded_is_null_finite_is_itself
    [of "\<lparr>hourly = None, daily = Some 0, monthly = Some 7\<rparr>" 0]
    unbounded_is_null_finite_is_itself
    [of "\<lparr>hourly = None, daily = Some 0, monthly = Some 7\<rparr>" 7]
  by simp

section \<open>Errors of the endpoints\<close>

text \<open>
  Claim C3. For every period type outside "hour", "day" and "month",
  \<^verbatim>\<open>getRateLimitHistoryData\<close> throws the error "Invalid period type: ..." of
  \<^verbatim>\<open>convertPeriodType\<close>, and it has then had no effect: neither the Entitlement Source
  nor storage was called.
\<close>

theorem invalid_period_type_before_any_call:
  assumes "pt \<notin> {''hour'', ''day'', ''month''}"
  shows "getRateLimitHistoryData this userId pt limit_arg =
           ([], Inl (Error (''Invalid period type: '' @ pt)))"
  using assms by (simp add: getRateLimitHistoryData_def convertPeriodType_def)

theorem invalid_period_type_before_any_call_witness:
  "''week'' \<notin> {''hour'', ''day'', ''month''} \<and>
   getRateLimitHistoryData (example_handler starter_pro (Inr example_table)) ''u1'' ''week''
       (Some 10) = ([], Inl (Error ''Invalid period type: week''))"
  using invalid_period_type_before_any_call
    [of "''week''" "example_handler starter_pro (Inr example_table)" "''u1''" "Some 10"]
  by simp

text \<open>
  Claim C4. When the storage operation of a request fails (\<^verbatim>\<open>checkOnly\<close> in
  \<^verbatim>\<open>getRateLimitsConfigData\<close>, \<^verbatim>\<open>getHistory\<close> in \<^verbatim>\<open>getRateLimitHistoryData\<close>), the
  request fails with that same error: no result is substituted, and the storage
  operation was called exactly once (no retry).
\<close>

theorem storage_failure_propagates_unchanged:
  assumes "subscription_or_none this userId = (ents, startedAt)"
  shows "(checkOnly (rateLimitChecker this) userId
            (getRateLimits (entitlementHelper this) ents) startedAt = Inl e \<longrightarrow>
          snd (getRateLimitsConfigData this userId) = Inl e \<and>
          storage_calls (fst (getRateLimitsConfigData this userId)) =
            [CallCheckOnly userId (getRateLimits (entitlementHelper this) ents) startedAt]) \<and>
         (convertPeriodType pt = Inr ipt \<and>
          getHistory (rateLimitChecker this) userId ipt startedAt
            (case limit_arg of None \<Rightarrow> 100 | Some n \<Rightarrow> n) = Inl e \<longrightarrow>
          snd (getRateLimitHistoryData this userId pt limit_arg) = Inl e \<and>
          storage_calls (fst (getRateLimitHistoryData this userId pt limit_arg)) =
            [CallGetHistory userId ipt startedAt
               (case limit_arg of None \<Rightarrow> 100 | Some n \<Rightarrow> n)])"
  using assms
  by (auto simp add: subscription_or_none_def getRateLimitsConfigData_def
      getRateLimitHistoryData_def storage_calls_def Let_def split: sum.splits)

theorem storage_failure_propagates_unchanged_witness:
  "subscription_or_none (example_handler starter_only (Inl (Error ''connection refused''))) ''u1''
     = ([''starter''], Some 1700000000000) \<and>
   checkOnly (rateLimitChecker (example_handler starter_only (Inl (Error ''connection refused''))))
     ''u1'' (getRateLimits (entitlementHelper
        (example_handler starter_only (Inl (Error ''connection refused'')))) [''starter''])
     (Some 1700000000000) = Inl (Error ''connection refused'') \<and>
   snd (getRateLimitsConfigData
     (example_handler starter_only (Inl (Error ''connection refused''))) ''u1'')
     = Inl (Error ''connection refused'') \<and>
   convertPeriodType ''day'' = Inr DAILY \<and>
   getHistory (rateLimitChecker (example_handler starter_only (Inl (Error ''connection refused''))))
     ''u1'' DAILY (Some 1700000000000) 100 = Inl (Error ''connection refused'') \<and>
   snd (getRateLimitHistoryData
     (example_handler starter_only (Inl (Error ''connection refused''))) ''u1'' ''day'' None)
     = Inl (Error ''connection refused'') \<and>
   storage_calls (fst (getRateLimitHistoryData
     (example_handler starter_only (Inl (Error ''connection refused''))) ''u1'' ''day'' None))
     = [CallGetHistory ''u1'' DAILY (Some 1700000000000) 100]"
proof -
  let ?h = "example_handler starter_only (Inl (Error ''connection refused''))"
  have sub: "subscription_or_none ?h ''u1'' = ([''starter''], Some 1700000000000)"
    by (simp add: subscription_or_none_def example_handler_def new_RateLimitRouteHandler_def
        starter_only_def)
  have chk: "checkOnly (rateLimitChecker ?h) ''u1''
      (getRateLimits (entitlementHelper ?h) [''starter'']) (Some 1700000000000)
      = Inl (Error ''connection refused'')"
    by (simp add: example_handler_def new_RateLimitRouteHandler_def example_checker_def)
  have cpt: "convertPeriodType ''day'' = Inr DAILY"
    by (simp add: convertPeriodType_def)
  have hist: "getHistory (rateLimitChecker ?h) ''u1'' DAILY (Some 1700000000000) 100
      = Inl (Error ''connection refused'')"
    by (simp add: example_handler_def new_RateLimitRouteHandler_def example_checker_def
        RateLimitChecker_getHistory_def)
  show ?thesis
    using storage_failure_propagates_unchanged
      [OF sub, of "Error ''connection refused''" "''day''" DAILY None] sub chk cpt hist
    by simp
qed

text \<open>
  Claim C1, as the code has it. When \<^verbatim>\<open>getSubscriptionInfo\<close> throws, whatever the
  error, neither endpoint propagates it: the error is written with \<^verbatim>\<open>console.error\<close>
  (by \<^verbatim>\<open>getRateLimitsConfigData\<close> always, by \<^verbatim>\<open>getRateLimitHistoryData\<close> whenever the
  period type is valid, so that the Entitlement Source is called at all) and the request
  continues with the entitlement list \<^verbatim>\<open>["none"]\<close> and no subscription start. Its outcome
  is the outcome of the same request against an Entitlement Source that answers with the
  tier "none"; if \<^verbatim>\<open>checkOnly\<close> then returns, the reported entitlement is "none".
\<close>

theorem subscription_failure_continues_as_none:
  assumes "getSubscriptionInfo (rcHelper this) userId = Inl err"
  shows "snd (getRateLimitsConfigData this userId) =
           snd (getRateLimitsConfigData (this\<lparr>rcHelper := none_subscription\<rparr>) userId) \<and>
         snd (getRateLimitHistoryData this userId pt limit_arg) =
           snd (getRateLimitHistoryData (this\<lparr>rcHelper := none_subscription\<rparr>) userId pt
                  limit_arg) \<and>
         (\<exists>msg. ConsoleError msg err \<in> set (fst (getRateLimitsConfigData this userId))) \<and>
         (convertPeriodType pt = Inr ipt \<longrightarrow>
          (\<exists>msg. ConsoleError msg err \<in>
                   set (fst (getRateLimitHistoryData this userId pt limit_arg)))) \<and>
         (checkOnly (rateLimitChecker this) userId
            (getRateLimits (entitlementHelper this) [NONE_ENTITLEMENT]) None = Inr cr \<longrightarrow>
          (\<exists>r. snd (getRateLimitsConfigData this userId) = Inr r \<and>
               currentEntitlement r = ''none'' \<and>
               currentLimits r =
                 convertLimits (getRateLimits (entitlementHelper this) [NONE_ENTITLEMENT])))"
proof -
  have a: "snd (getRateLimitsConfigData this userId) =
           snd (getRateLimitsConfigData (this\<lparr>rcHelper := none_subscription\<rparr>) userId)"
    using assms
    by (simp add: getRateLimitsConfigData_def none_subscription_def Let_def getDisplayName_def
        NONE_ENTITLEMENT_def split: sum.splits)
  have b: "snd (getRateLimitHistoryData this userId pt limit_arg) =
           snd (getRateLimitHistoryData (this\<lparr>rcHelper := none_subscription\<rparr>) userId pt
                  limit_arg)"
    using assms
    by (simp add: getRateLimitHistoryData_def none_subscription_def Let_def
        split: sum.splits)
  have c: "\<exists>msg. ConsoleError msg err \<in> set (fst (getRateLimitsConfigData this userId))"
    using assms
    by (auto simp add: getRateLimitsConfigData_def Let_def split: sum.splits)
  have d: "checkOnly (rateLimitChecker this) userId
            (getRateLimits (entitlementHelper this) [NONE_ENTITLEMENT]) None = Inr cr \<longrightarrow>
          (\<exists>r. snd (getRateLimitsConfigData this userId) = Inr r \<and>
               currentEntitlement r = ''none'' \<and>
               currentLimits r =
                 convertLimits (getRateLimits (entitlementHelper this) [NONE_ENTITLEMENT]))"
    using assms
    by (simp add: getRateLimitsConfigData_def Let_def NONE_ENTITLEMENT_def)
  have e: "convertPeriodType pt = Inr ipt \<longrightarrow>
          (\<exists>msg. ConsoleError msg err \<in>
                   set (fst (getRateLimitHistoryData this userId pt limit_arg)))"
    using assms
    by (auto simp add: getRateLimitHistoryData_def Let_def split: sum.splits)
  from a b c d e show ?thesis by blast
qed

theorem subscription_failure_continues_as_none_witness:
  "getSubscriptionInfo (rcHelper (example_handler source_down (Inr example_table))) ''u1''
     = Inl (Error ''RevenueCat API error: 503'') \<and>
   snd (getRateLimitsConfigData (example_handler source_down (Inr example_table)) ''u1'') =
     snd (getRateLimitsConfigData
            ((example_handler source_down (Inr example_table))\<lparr>rcHelper := none_subscription\<rparr>)
            ''u1'') \<and>
   snd (getRateLimitHistoryData (example_handler source_down (Inr example_table)) ''u1''
          ''hour'' None) =
     snd (getRateLimitHistoryData
            ((example_handler source_down (Inr example_table))\<lparr>rcHelper := none_subscription\<rparr>)
            ''u1'' ''hour'' None) \<and>
   convertPeriodType ''hour'' = Inr HOURLY \<and>
   (\<exists>msg. ConsoleError msg (Error ''RevenueCat API error: 503'') \<in>
      set (fst (getRateLimitHistoryData (example_handler source_down (Inr example_table))
                  ''u1'' ''hour'' None)))"
proof -
  have f: "getSubscriptionInfo (rcHelper (example_handler source_down (Inr example_table)))
      ''u1'' = Inl (Error ''RevenueCat API error: 503'')"
    by (simp add: example_handler_def new_RateLimitRouteHandler_def source_down_def)
  have g: "convertPeriodType ''hour'' = Inr HOURLY"
    by (simp add: convertPeriodType_def)
  show ?thesis
    using subscription_failure_continues_as_none [OF f, of "''hour''" None HOURLY] f g
    by simp
qed

text \<open>
  Claim C1 as stated fails: with the Entitlement Source answering with a 503 error, both
  endpoints return a result, computed for the tier "none", in place of the error.
\<close>

theorem subscription_failure_propagates_counterexample:
  "getSubscriptionInfo (rcHelper (example_handler source_down (Inr example_table))) ''u1''
     = Inl (Error ''RevenueCat API error: 503'') \<and>
   snd (getRateLimitsConfigData (example_handler source_down (Inr example_table)) ''u1'') =
     Inr \<lparr>tiers =
            [\<lparr>entitlement = ''none'', displayName = ''Free'',
              limits = \<lparr>hourly = Num 5, daily = Num 20, monthly = Num 100\<rparr>\<rparr>,
             \<lparr>entitlement = ''starter'', displayName = ''Starter'',
              limits = \<lparr>hourly = Num 10, daily = Num 50, monthly = Num 500\<rparr>\<rparr>,
             \<lparr>entitlement = ''pro'', displayName = ''Pro'',
              limits = \<lparr>hourly = Null, daily = Null, monthly = Null\<rparr>\<rparr>],
          currentEntitlement = ''none'',
          currentLimits = \<lparr>hourly = Num 5, daily = Num 20, monthly = Num 100\<rparr>,
          currentUsage = \<lparr>hourly = 2, daily = 2, monthly = 2\<rparr>\<rparr> \<and>
   snd (getRateLimitHistoryData (example_handler source_down (Inr example_table)) ''u1''
          ''hour'' (Some 1)) =
     Inr \<lparr>periodType = ''hour'',
          entries = [\<lparr>periodStart = ''2024-01-01T02:00:00.000Z'',
                      periodEnd = ''2024-01-01T03:00:00.000Z'',
                      requestCount = 0, limit = Num 5\<rparr>],
          totalEntries = 1\<rparr>"
  by (simp add: getRateLimitsConfigData_def getRateLimitHistoryData_def example_defs
      toISOString_examples)

section \<open>The reported entitlement, limits and usage\<close>

lemma getPrimaryEntitlement_find:
  "getPrimaryEntitlement this es =
     (case find (\<lambda>t. t \<noteq> ''none'' \<and> config_property_truthy (rateLimitsConfig this) t) es of
        Some t \<Rightarrow> t | None \<Rightarrow> ''none'')"
  by (induction es) (simp_all add: NONE_ENTITLEMENT_def)

text \<open>On tags that are not names of members of \<^verbatim>\<open>Object.prototype\<close> the test is the test
  for an entry of the configuration.\<close>

lemma getPrimaryEntitlement_own_entries:
  assumes "set es \<inter> set Object_prototype_members = {}"
  shows "getPrimaryEntitlement this es =
     (case find (\<lambda>t. t \<noteq> ''none'' \<and> map_of (rateLimitsConfig this) t \<noteq> None) es of
        Some t \<Rightarrow> t | None \<Rightarrow> ''none'')"
  using assms
  by (induction es)
    (auto simp add: NONE_ENTITLEMENT_def config_property_truthy_def split: option.splits)

lemma getPrimaryEntitlement_order_dependent:
  "getPrimaryEntitlement (this\<lparr>rateLimitsConfig := example_config\<rparr>) [''starter'', ''pro'']
     = ''starter''"
  "getPrimaryEntitlement (this\<lparr>rateLimitsConfig := example_config\<rparr>) [''pro'', ''starter'']
     = ''pro''"
  by (simp_all add: NONE_ENTITLEMENT_def config_property_truthy_def example_config_def)

text \<open>The endpoint returns a result exactly when \<^verbatim>\<open>checkOnly\<close> returns.\<close>

lemma getRateLimitsConfigData_returns:
  assumes "subscription_or_none this userId = (ents, startedAt)"
  shows "(\<exists>r. snd (getRateLimitsConfigData this userId) = Inr r) =
         (\<exists>cr. checkOnly (rateLimitChecker this) userId
                  (getRateLimits (entitlementHelper this) ents) startedAt = Inr cr)"
  using assms
  by (auto simp add: subscription_or_none_def getRateLimitsConfigData_def Let_def
      split: sum.splits)

lemma getRateLimitsConfigData_currentEntitlement:
  assumes "subscription_or_none this userId = (ents, startedAt)"
    and "snd (getRateLimitsConfigData this userId) = Inr r"
  shows "currentEntitlement r = getPrimaryEntitlement this ents"
  using assms
  by (auto simp add: subscription_or_none_def getRateLimitsConfigData_def Let_def
      split: sum.splits)

text \<open>
  Claim C10 says that the entitlement reported by \<^verbatim>\<open>getRateLimitsConfigData\<close> is the
  first tag, in the order of the list, that is not "none" and has an entry in the
  configuration. The code departs from it at the tags "constructor", "starter": the
  configuration has no entry "constructor" and has the entry "starter", so the first
  configured tag is "starter", yet the endpoint reports "constructor", because the test
  \<^verbatim>\<open>this.rateLimitsConfig[entitlement]\<close> finds the inherited member of that name.
\<close>

theorem inherited_name_precedes_configured_tag:
  "subscription_or_none (example_handler constructor_starter (Inr example_table)) ''u1''
     = ([''constructor'', ''starter''], Some 1700000000000) \<and>
   map_of (rateLimitsConfig (example_handler constructor_starter (Inr example_table)))
     ''constructor'' = None \<and>
   map_of (rateLimitsConfig (example_handler constructor_starter (Inr example_table)))
     ''starter'' = Some \<lparr>hourly = Some 10, daily = Some 50, monthly = Some 500\<rparr> \<and>
   snd (getRateLimitsConfigData (example_handler constructor_starter (Inr example_table))
          ''u1'') =
     Inr \<lparr>tiers =
            [\<lparr>entitlement = ''none'', displayName = ''Free'',
              limits = \<lparr>hourly = Num 5, daily = Num 20, monthly = Num 100\<rparr>\<rparr>,
             \<lparr>entitlement = ''starter'', displayName = ''Starter'',
              limits = \<lparr>hourly = Num 10, daily = Num 50, monthly = Num 500\<rparr>\<rparr>,
             \<lparr>entitlement = ''pro'', displayName = ''Pro'',
              limits = \<lparr>hourly = Null, daily = Null, monthly = Null\<rparr>\<rparr>],
          currentEntitlement = ''constructor'',
          currentLimits = \<lparr>hourly = Num 10, daily = Num 50, monthly = Num 500\<rparr>,
          currentUsage = \<lparr>hourly = 2, daily = 2, monthly = 2\<rparr>\<rparr>"
  by (simp add: subscription_or_none_def getRateLimitsConfigData_def example_defs)

text \<open>
  Claim C6 says that \<^verbatim>\<open>getRateLimitsConfigData\<close> reports the entitlement "none" when no
  tag other than "none" has an entry in the configuration, and never a tag that is absent
  from the configuration. The code departs from it at the single tag "toString": the
  configuration has no entry "toString", yet the endpoint reports "toString", because
  the test \<^verbatim>\<open>this.rateLimitsConfig[entitlement]\<close> finds the inherited member of that name.
\<close>

theorem inherited_name_reported_as_entitlement:
  "subscription_or_none (example_handler toString_only (Inr example_table)) ''u1''
     = ([''toString''], None) \<and>
   map_of (rateLimitsConfig (example_handler toString_only (Inr example_table)))
     ''toString'' = None \<and>
   map_of (rateLimitsConfig (example_handler toString_only (Inr example_table)))
     ''none'' = Some \<lparr>hourly = Some 5, daily = Some 20, monthly = Some 100\<rparr> \<and>
   snd (getRateLimitsConfigData (example_handler toString_only (Inr example_table)) ''u1'') =
     Inr \<lparr>tiers =
            [\<lparr>entitlement = ''none'', displayName = ''Free'',
              limits = \<lparr>hourly = Num 5, daily = Num 20, monthly = Num 100\<rparr>\<rparr>,
             \<lparr>entitlement = ''starter'', displayName = ''Starter'',
              limits = \<lparr>hourly = Num 10, daily = Num 50, monthly = Num 500\<rparr>\<rparr>,
             \<lparr>entitlement = ''pro'', displayName = ''Pro'',
              limits = \<lparr>hourly = Null, daily = Null, monthly = Null\<rparr>\<rparr>],
          currentEntitlement = ''toString'',
          currentLimits = \<lparr>hourly = Num 5, daily = Num 20, monthly = Num 100\<rparr>,
          currentUsage = \<lparr>hourly = 2, daily = 2, monthly = 2\<rparr>\<rparr>"
  by (simp add: subscription_or_none_def getRateLimitsConfigData_def example_defs)

text \<open>Where the tags hold no name of a member of \<^verbatim>\<open>Object.prototype\<close>, the endpoint
  reports the first configured tag other than "none", and "none" when there is none: for
  the tags "gold", "none" it reports "none".\<close>

lemma unconfigured_tags_report_none_example:
  "snd (getRateLimitsConfigData (example_handler gold_none (Inr example_table)) ''u1'') =
     Inr \<lparr>tiers =
            [\<lparr>entitlement = ''none'', displayName = ''Free'',
              limits = \<lparr>hourly = Num 5, daily = Num 20, monthly = Num 100\<rparr>\<rparr>,
             \<lparr>entitlement = ''starter'', displayName = ''Starter'',
              limits = \<lparr>hourly = Num 10, daily = Num 50, monthly = Num 500\<rparr>\<rparr>,
             \<lparr>entitlement = ''pro'', displayName = ''Pro'',
              limits = \<lparr>hourly = Null, daily = Null, monthly = Null\<rparr>\<rparr>],
          currentEntitlement = ''none'',
          currentLimits = \<lparr>hourly = Num 5, daily = Num 20, monthly = Num 100\<rparr>,
          currentUsage = \<lparr>hourly = 2, daily = 2, monthly = 2\<rparr>\<rparr>"
  by (simp add: getRateLimitsConfigData_def example_defs)

text \<open>
  Claim C9. In the result of \<^verbatim>\<open>getRateLimitsConfigData\<close> the usage of a period is 0 when
  the limit of the period is unlimited, whatever \<^verbatim>\<open>checkOnly\<close> reports; it is the limit
  minus the remaining count when the limit is finite, an absent remaining count being
  taken as 0, so that the usage is then the whole limit.
\<close>

theorem current_usage_is_limit_minus_remaining:
  assumes "subscription_or_none this userId = (ents, startedAt)"
    and "checkOnly (rateLimitChecker this) userId
           (getRateLimits (entitlementHelper this) ents) startedAt = Inr cr"
    and "internalLimits = getRateLimits (entitlementHelper this) ents"
  shows "\<exists>r. snd (getRateLimitsConfigData this userId) = Inr r \<and>
     (hourly internalLimits = None \<longrightarrow> hourly (currentUsage r) = 0) \<and>
     (hourly internalLimits = Some n \<and> hourly (remaining cr) = Some m \<longrightarrow>
        hourly (currentUsage r) = n - m) \<and>
     (hourly internalLimits = Some n \<and> hourly (remaining cr) = None \<longrightarrow>
        hourly (currentUsage r) = n) \<and>
     (daily internalLimits = None \<longrightarrow> daily (currentUsage r) = 0) \<and>
     (daily internalLimits = Some n \<and> daily (remaining cr) = Some m \<longrightarrow>
        daily (currentUsage r) = n - m) \<and>
     (daily internalLimits = Some n \<and> daily (remaining cr) = None \<longrightarrow>
        daily (currentUsage r) = n) \<and>
     (monthly internalLimits = None \<longrightarrow> monthly (currentUsage r) = 0) \<and>
     (monthly internalLimits = Some n \<and> monthly (remaining cr) = Some m \<longrightarrow>
        monthly (currentUsage r) = n - m) \<and>
     (monthly internalLimits = Some n \<and> monthly (remaining cr) = None \<longrightarrow>
        monthly (currentUsage r) = n)"
  using assms
  by (auto simp add: subscription_or_none_def getRateLimitsConfigData_def Let_def
      split: sum.splits)

theorem current_usage_is_limit_minus_remaining_witness:
  "subscription_or_none (example_handler starter_only (Inr example_table)) ''u1''
     = ([''starter''], Some 1700000000000) \<and>
   getRateLimits (entitlementHelper (example_handler starter_only (Inr example_table)))
     [''starter''] = \<lparr>hourly = Some 10, daily = Some 50, monthly = Some 500\<rparr> \<and>
   checkOnly (rateLimitChecker (example_handler starter_only (Inr example_table))) ''u1''
     \<lparr>hourly = Some 10, daily = Some 50, monthly = Some 500\<rparr> (Some 1700000000000)
     = Inr \<lparr>allowed = True,
            remaining = \<lparr>hourly = Some 8, daily = Some 48, monthly = Some 498\<rparr>\<rparr> \<and>
   (\<exists>r. snd (getRateLimitsConfigData (example_handler starter_only (Inr example_table)) ''u1'')
          = Inr r \<and>
        hourly (currentUsage r) = 10 - 8) \<and>
   subscription_or_none (example_handler starter_pro (Inr example_table)) ''u1''
     = ([''starter'', ''pro''], Some 1700000000000) \<and>
   getRateLimits (entitlementHelper (example_handler starter_pro (Inr example_table)))
     [''starter'', ''pro''] = \<lparr>hourly = None, daily = None, monthly = None\<rparr> \<and>
   (\<exists>r. snd (getRateLimitsConfigData (example_handler starter_pro (Inr example_table)) ''u1'')
          = Inr r \<and>
        hourly (currentUsage r) = 0)"
proof -
  let ?h = "example_handler starter_only (Inr example_table)"
  let ?g = "example_handler starter_pro (Inr example_table)"
  have sub: "subscription_or_none ?h ''u1'' = ([''starter''], Some 1700000000000)"
    by (simp add: subscription_or_none_def example_defs)
  have lim: "\<lparr>hourly = Some 10, daily = Some 50, monthly = Some 500\<rparr> =
      getRateLimits (entitlementHelper ?h) [''starter'']"
    by (simp add: example_defs)
  have chk: "checkOnly (rateLimitChecker ?h) ''u1''
      (getRateLimits (entitlementHelper ?h) [''starter'']) (Some 1700000000000)
      = Inr \<lparr>allowed = True,
             remaining = \<lparr>hourly = Some 8, daily = Some 48, monthly = Some 498\<rparr>\<rparr>"
    by (simp add: example_defs)
  have one: "\<exists>r. snd (getRateLimitsConfigData ?h ''u1'') = Inr r \<and>
      hourly (currentUsage r) = 10 - 8"
    using current_usage_is_limit_minus_remaining [OF sub chk lim, of 10 8] by auto
  have sub': "subscription_or_none ?g ''u1'' = ([''starter'', ''pro''], Some 1700000000000)"
    by (simp add: subscription_or_none_def example_defs)
  have lim': "\<lparr>hourly = None, daily = None, monthly = None\<rparr> =
      getRateLimits (entitlementHelper ?g) [''starter'', ''pro'']"
    by (simp add: example_defs)
  have chk': "checkOnly (rateLimitChecker ?g) ''u1''
      (getRateLimits (entitlementHelper ?g) [''starter'', ''pro'']) (Some 1700000000000)
      = Inr \<lparr>allowed = True,
             remaining = \<lparr>hourly = None, daily = None, monthly = None\<rparr>\<rparr>"
    by (simp add: example_defs)
  have two: "\<exists>r. snd (getRateLimitsConfigData ?g ''u1'') = Inr r \<and>
      hourly (currentUsage r) = 0"
    using current_usage_is_limit_minus_remaining [OF sub' chk' lim', of 0 0] by auto
  show ?thesis
    using sub lim [symmetric] chk one sub' lim' [symmetric] two by simp
qed

section \<open>The history endpoint\<close>

lemma convertPeriodType_valid:
  "pt \<in> {''hour'', ''day'', ''month''} \<Longrightarrow> \<exists>ipt. convertPeriodType pt = Inr ipt"
  by (auto simp add: convertPeriodType_def)

text \<open>
  Claim C8. When \<^verbatim>\<open>getHistory\<close> returns, \<^verbatim>\<open>getRateLimitHistoryData\<close> returns one entry
  per stored record, in the same order: the ISO-8601 strings of the record's
  \<^verbatim>\<open>period_start\<close> and \<^verbatim>\<open>period_end\<close>, its \<^verbatim>\<open>request_count\<close> unchanged, and the
  user's limit for the requested period type; \<^verbatim>\<open>totalEntries\<close> is the number of entries.
\<close>

theorem history_entries_carry_stored_records:
  assumes "subscription_or_none this userId = (ents, startedAt)"
    and "convertPeriodType pt = Inr ipt"
    and "getHistory (rateLimitChecker this) userId ipt startedAt
           (case limit_arg of None \<Rightarrow> 100 | Some n \<Rightarrow> n) = Inr history"
  shows "\<exists>fx r. getRateLimitHistoryData this userId pt limit_arg = (fx, Inr r) \<and>
     periodType r = pt \<and>
     length (entries r) = length (history_entries history) \<and>
     (\<forall>i<length (history_entries history).
        periodStart (entries r ! i) = toISOString (period_start (history_entries history ! i)) \<and>
        periodEnd (entries r ! i) = toISOString (period_end (history_entries history ! i)) \<and>
        requestCount (entries r ! i) = request_count (history_entries history ! i) \<and>
        limit (entries r ! i) =
          getLimitForPeriod (getRateLimits (entitlementHelper this) ents) pt) \<and>
     totalEntries r = length (entries r)"
  using assms
  by (cases "getSubscriptionInfo (rcHelper this) userId")
    (simp_all add: getRateLimitHistoryData_def Let_def subscription_or_none_def)

theorem history_entries_carry_stored_records_witness:
  "subscription_or_none (example_handler starter_only (Inr example_table)) ''u1''
     = ([''starter''], Some 1700000000000) \<and>
   convertPeriodType ''hour'' = Inr HOURLY \<and>
   getHistory (rateLimitChecker (example_handler starter_only (Inr example_table))) ''u1''
     HOURLY (Some 1700000000000) 1
     = Inr \<lparr>history_entries = [\<lparr>period_start = 1704074400000, period_end = 1704078000000,
                                 request_count = 0\<rparr>]\<rparr> \<and>
   (\<exists>fx r. getRateLimitHistoryData (example_handler starter_only (Inr example_table)) ''u1''
              ''hour'' (Some 1) = (fx, Inr r) \<and>
      length (entries r) = 1 \<and>
      periodStart (entries r ! 0) = ''2024-01-01T02:00:00.000Z'' \<and>
      periodEnd (entries r ! 0) = ''2024-01-01T03:00:00.000Z'' \<and>
      requestCount (entries r ! 0) = 0 \<and>
      limit (entries r ! 0) = Num 10 \<and>
      totalEntries r = 1)"
proof -
  let ?h = "example_handler starter_only (Inr example_table)"
  let ?hist = "\<lparr>history_entries = [\<lparr>period_start = 1704074400000,
      period_end = 1704078000000, request_count = 0\<rparr>]\<rparr>"
  have sub: "subscription_or_none ?h ''u1'' = ([''starter''], Some 1700000000000)"
    by (simp add: subscription_or_none_def example_defs)
  have cpt: "convertPeriodType ''hour'' = Inr HOURLY"
    by (simp add: convertPeriodType_def)
  have hist: "getHistory (rateLimitChecker ?h) ''u1'' HOURLY (Some 1700000000000) 1
      = Inr ?hist"
    by (simp add: example_defs)
  have hist': "getHistory (rateLimitChecker ?h) ''u1'' HOURLY (Some 1700000000000)
      (case Some 1 of None \<Rightarrow> 100 | Some n \<Rightarrow> n) = Inr ?hist"
    using hist by simp
  have lim: "getLimitForPeriod (getRateLimits (entitlementHelper ?h) [''starter'']) ''hour''
      = Num 10"
    by (simp add: example_defs)
  have "\<exists>fx r. getRateLimitHistoryData ?h ''u1'' ''hour'' (Some 1) = (fx, Inr r) \<and>
      length (entries r) = 1 \<and>
      periodStart (entries r ! 0) = ''2024-01-01T02:00:00.000Z'' \<and>
      periodEnd (entries r ! 0) = ''2024-01-01T03:00:00.000Z'' \<and>
      requestCount (entries r ! 0) = 0 \<and>
      limit (entries r ! 0) = Num 10 \<and>
      totalEntries r = 1"
    using history_entries_carry_stored_records [OF sub cpt hist'] lim
    by (auto simp add: toISOString_examples)
  with sub cpt hist show ?thesis by blast
qed

subsection \<open>The list query\<close>

lemma query_counters_subset:
  assumes "c \<in> set (query_counters table userId pt n)"
  shows "c \<in> set table \<and> cr_userId c = userId \<and> cr_periodType c = pt"
proof -
  have "c \<in> set (rev (sort_key cr_periodStart
        (filter (\<lambda>r. cr_userId r = userId \<and> cr_periodType r = pt) table)))"
    using assms unfolding query_counters_def by (rule in_set_takeD)
  then show ?thesis by simp
qed

lemma query_counters_length: "length (query_counters table userId pt n) \<le> nat n"
  unfolding query_counters_def by simp

lemma distinct_window_starts:
  assumes "distinct (map cr_key table)"
  shows "distinct (map cr_periodStart
           (filter (\<lambda>r. cr_userId r = userId \<and> cr_periodType r = pt) table))"
proof -
  let ?xs = "filter (\<lambda>r. cr_userId r = userId \<and> cr_periodType r = pt) table"
  have d: "distinct (map cr_key ?xs)"
    using assms by (rule distinct_map_filter)
  have inj: "inj_on cr_key (set ?xs)" and dx: "distinct ?xs"
    using d unfolding distinct_map by blast+
  have "inj_on cr_periodStart (set ?xs)"
  proof (rule inj_onI)
    fix a b assume a: "a \<in> set ?xs" and b: "b \<in> set ?xs"
      and e: "cr_periodStart a = cr_periodStart b"
    have "cr_userId a = cr_userId b" "cr_periodType a = cr_periodType b"
      using a b by simp_all
    with e have "cr_key a = cr_key b" unfolding cr_key_def by simp
    from inj this a b show "a = b" by (rule inj_onD)
  qed
  with dx show ?thesis unfolding distinct_map by blast
qed

lemma query_counters_descending:
  assumes "distinct (map cr_key table)"
  shows "sorted_wrt (\<lambda>a b. cr_periodStart a > cr_periodStart b)
           (query_counters table userId pt n)"
proof -
  let ?xs = "filter (\<lambda>r. cr_userId r = userId \<and> cr_periodType r = pt) table"
  let ?s = "sort_key cr_periodStart ?xs"
  have "mset (map cr_periodStart ?s) = mset (map cr_periodStart ?xs)" by simp
  then have "distinct (map cr_periodStart ?s) = distinct (map cr_periodStart ?xs)"
    by (rule mset_eq_imp_distinct_iff)
  then have "distinct (map cr_periodStart ?s)"
    using distinct_window_starts [OF assms, of userId pt] by blast
  moreover have "sorted (map cr_periodStart ?s)" by simp
  ultimately have "sorted_wrt (<) (map cr_periodStart ?s)"
    unfolding strict_sorted_iff by blast
  then have "sorted_wrt (\<lambda>a b. cr_periodStart a < cr_periodStart b) ?s"
    unfolding sorted_wrt_map .
  then have "sorted_wrt (\<lambda>a b. cr_periodStart a > cr_periodStart b) (rev ?s)"
    unfolding sorted_wrt_rev .
  then show ?thesis unfolding query_counters_def by (rule sorted_wrt_take)
qed

text \<open>
  Claim C7. With \<^verbatim>\<open>getHistory\<close> as the spec describes it, over a table whose key triples
  are unique, \<^verbatim>\<open>getRateLimitHistoryData\<close> returns for every user, valid period type and
  limit a history whose entries are, in order, the conversions of counter rows of the
  table: rows of that user and period type (each entry is a row that was created, none
  is made up), strictly decreasing by window start, and at most \<^verbatim>\<open>limit\<close> of them, at
  most 100 when the caller omits the limit.
\<close>

theorem history_descending_capped_no_backfill:
  assumes "getHistory (rateLimitChecker this) =
             RateLimitChecker_getHistory windowEnd (Inr table)"
    and "distinct (map cr_key table)"
    and "pt \<in> {''hour'', ''day'', ''month''}"
  shows "\<exists>fx r rows.
     getRateLimitHistoryData this userId pt limit_arg = (fx, Inr r) \<and>
     map periodStart (entries r) = map (\<lambda>c. toISOString (cr_periodStart c)) rows \<and>
     map requestCount (entries r) = map cr_requestCount rows \<and>
     sorted_wrt (\<lambda>a b. cr_periodStart a > cr_periodStart b) rows \<and>
     (\<forall>c\<in>set rows. c \<in> set table \<and> cr_userId c = userId \<and>
        convertPeriodType pt = Inr (cr_periodType c)) \<and>
     length (entries r) \<le> nat (case limit_arg of None \<Rightarrow> 100 | Some n \<Rightarrow> n)"
proof -
  obtain ipt where ipt: "convertPeriodType pt = Inr ipt"
    using convertPeriodType_valid [OF assms(3)] by blast
  let ?n = "case limit_arg of None \<Rightarrow> 100 | Some n \<Rightarrow> n"
  let ?rows = "query_counters table userId ipt ?n"
  obtain fx r where run: "getRateLimitHistoryData this userId pt limit_arg = (fx, Inr r)"
    and ents: "entries r = map (\<lambda>entry.
        \<lparr>periodStart = toISOString (period_start entry),
         periodEnd = toISOString (period_end entry),
         requestCount = request_count entry,
         limit = getLimitForPeriod (getRateLimits (entitlementHelper this)
                   (fst (subscription_or_none this userId))) pt\<rparr>)
        (map (\<lambda>r. \<lparr>period_start = cr_periodStart r,
                    period_end = windowEnd ipt (snd (subscription_or_none this userId))
                                   (cr_periodStart r),
                    request_count = cr_requestCount r\<rparr>) ?rows)"
    using ipt assms(1)
    by (cases "getSubscriptionInfo (rcHelper this) userId")
      (simp_all add: getRateLimitHistoryData_def RateLimitChecker_getHistory_def Let_def
        subscription_or_none_def)
  have "map periodStart (entries r) = map (\<lambda>c. toISOString (cr_periodStart c)) ?rows"
    unfolding ents by (simp add: comp_def)
  moreover have "map requestCount (entries r) = map cr_requestCount ?rows"
    unfolding ents by (simp add: comp_def)
  moreover have "sorted_wrt (\<lambda>a b. cr_periodStart a > cr_periodStart b) ?rows"
    using assms(2) by (rule query_counters_descending)
  moreover have "\<forall>c\<in>set ?rows. c \<in> set table \<and> cr_userId c = userId \<and>
        convertPeriodType pt = Inr (cr_periodType c)"
    using query_counters_subset [of _ table userId ipt ?n] ipt by auto
  moreover have "length (entries r) \<le> nat ?n"
    unfolding ents using query_counters_length [of table userId ipt ?n] by simp
  ultimately show ?thesis using run by blast
qed

theorem history_descending_capped_no_backfill_witness:
  "getHistory (rateLimitChecker (example_handler starter_only (Inr example_table))) =
     RateLimitChecker_getHistory example_windowEnd (Inr example_table) \<and>
   distinct (map cr_key example_table) \<and>
   ''hour'' \<in> {''hour'', ''day'', ''month''} \<and>
   snd (getRateLimitHistoryData (example_handler starter_only (Inr example_table)) ''u1''
          ''hour'' None) =
     Inr \<lparr>periodType = ''hour'',
          entries = [\<lparr>periodStart = ''2024-01-01T02:00:00.000Z'',
                      periodEnd = ''2024-01-01T03:00:00.000Z'',
                      requestCount = 0, limit = Num 10\<rparr>,
                     \<lparr>periodStart = ''2024-01-01T00:00:00.000Z'',
                      periodEnd = ''2024-01-01T01:00:00.000Z'',
                      requestCount = 3, limit = Num 10\<rparr>],
          totalEntries = 2\<rparr> \<and>
   (\<exists>fx r rows.
     getRateLimitHistoryData (example_handler starter_only (Inr example_table)) ''u1''
       ''hour'' None = (fx, Inr r) \<and>
     map periodStart (entries r) = map (\<lambda>c. toISOString (cr_periodStart c)) rows \<and>
     map requestCount (entries r) = map cr_requestCount rows \<and>
     sorted_wrt (\<lambda>a b. cr_periodStart a > cr_periodStart b) rows \<and>
     (\<forall>c\<in>set rows. c \<in> set example_table \<and> cr_userId c = ''u1'' \<and>
        convertPeriodType ''hour'' = Inr (cr_periodType c)) \<and>
     length (entries r) \<le> 100)"
proof -
  let ?h = "example_handler starter_only (Inr example_table)"
  have gh: "getHistory (rateLimitChecker ?h) =
      RateLimitChecker_getHistory example_windowEnd (Inr example_table)"
    by (simp add: example_handler_def new_RateLimitRouteHandler_def example_checker_def)
  have dist: "distinct (map cr_key example_table)"
    by (simp add: example_table_def cr_key_def)
  have pt: "''hour'' \<in> {''hour'', ''day'', ''month''}"
    by simp
  have res: "snd (getRateLimitHistoryData ?h ''u1'' ''hour'' None) =
     Inr \<lparr>periodType = ''hour'',
          entries = [\<lparr>periodStart = ''2024-01-01T02:00:00.000Z'',
                      periodEnd = ''2024-01-01T03:00:00.000Z'',
                      requestCount = 0, limit = Num 10\<rparr>,
                     \<lparr>periodStart = ''2024-01-01T00:00:00.000Z'',
                      periodEnd = ''2024-01-01T01:00:00.000Z'',
                      requestCount = 3, limit = Num 10\<rparr>],
          totalEntries = 2\<rparr>"
    by (simp add: getRateLimitHistoryData_def example_defs toISOString_examples)
  show ?thesis
    using history_descending_capped_no_backfill [OF gh dist pt, of "''u1''" None] gh dist res
    by simp
qed

section \<open>The merge of the Quota Resolver\<close>

lemma foldl_merge_limit:
  "foldl merge_limit a vs =
     (if None \<in> set (a # vs) then None else Some (Max {n. Some n \<in> set (a # vs)}))"
proof (induction vs arbitrary: a)
  case Nil
  show ?case by (cases a) simp_all
next
  case (Cons v vs)
  show ?case
  proof (cases a)
    case None
    then show ?thesis using Cons.IH [of None] by (simp add: merge_limit_def)
  next
    case (Some x)
    note a = this
    show ?thesis
    proof (cases v)
      case None
      then show ?thesis using Cons.IH [of None] a by (simp add: merge_limit_def)
    next
      case (Some y)
      have fin: "finite {n. Some n \<in> set vs}"
      proof -
        have "{n. Some n \<in> set vs} \<subseteq> the ` set vs" by force
        then show ?thesis by (rule finite_subset) simp
      qed
      have s1: "{n. Some n \<in> set (Some (max x y) # vs)} =
          insert (max x y) {n. Some n \<in> set vs}"
        by auto
      have s2: "{n. Some n \<in> set (Some x # Some y # vs)} =
          insert x (insert y {n. Some n \<in> set vs})"
        by auto
      have m: "Max (insert (max x y) {n. Some n \<in> set vs}) =
          Max (insert x (insert y {n. Some n \<in> set vs}))"
        using fin by (cases "{n. Some n \<in> set vs} = {}") (simp_all add: max.assoc)
      have n: "(None \<in> set (Some (max x y) # vs)) = (None \<in> set (Some x # Some y # vs))"
        by simp
      have "foldl merge_limit a (v # vs) = foldl merge_limit (Some (max x y)) vs"
        using a Some by (simp add: merge_limit_def)
      also have "\<dots> = (if None \<in> set (Some x # Some y # vs) then None
                       else Some (Max {n. Some n \<in> set (Some x # Some y # vs)}))"
        unfolding Cons.IH [of "Some (max x y)"] n s1 s2 m ..
      finally show ?thesis unfolding a Some .
    qed
  qed
qed

lemma foldl_merge_limits_sel:
  "hourly (foldl merge_limits l ls) = foldl merge_limit (hourly l) (map hourly ls)"
  "daily (foldl merge_limits l ls) = foldl merge_limit (daily l) (map daily ls)"
  "monthly (foldl merge_limits l ls) = foldl merge_limit (monthly l) (map monthly ls)"
  by (induction ls arbitrary: l) (simp_all add: merge_limits_def)

lemma merged_period:
  "foldl merge_limit (f l) (map f ls) =
     (if \<exists>x\<in>set (l # ls). f x = None then None
      else Some (Max {n. \<exists>x\<in>set (l # ls). f x = Some n}))"
proof -
  have a: "(None \<in> set (f l # map f ls)) = (\<exists>x\<in>set (l # ls). f x = None)"
    by (simp add: image_iff eq_commute [of None])
  have b: "{n. Some n \<in> set (f l # map f ls)} = {n. \<exists>x\<in>set (l # ls). f x = Some n}"
  proof -
    have "(Some n \<in> set (f l # map f ls)) = (\<exists>x\<in>set (l # ls). f x = Some n)" for n
      by (simp add: image_iff eq_commute [of "Some n"])
    then show ?thesis by simp
  qed
  show ?thesis unfolding foldl_merge_limit a b ..
qed

lemma set_applicable:
  "set (applicable tags config) = {ls. \<exists>t\<in>set tags. map_of config t = Some ls}"
  by (auto simp add: applicable_def split: option.splits)

lemma resolve_set:
  "resolve tags config =
     (if set (applicable tags config) = {} then map_of config ''none''
      else Some
        \<lparr>hourly =
           (if \<exists>x\<in>set (applicable tags config). hourly x = None then None
            else Some (Max {n. \<exists>x\<in>set (applicable tags config). hourly x = Some n})),
         daily =
           (if \<exists>x\<in>set (applicable tags config). daily x = None then None
            else Some (Max {n. \<exists>x\<in>set (applicable tags config). daily x = Some n})),
         monthly =
           (if \<exists>x\<in>set (applicable tags config). monthly x = None then None
            else Some (Max {n. \<exists>x\<in>set (applicable tags config). monthly x = Some n}))\<rparr>)"
proof (cases "applicable tags config")
  case Nil
  then show ?thesis by (simp add: resolve_def NONE_ENTITLEMENT_def)
next
  case (Cons l ls)
  have "foldl merge_limits l ls =
        \<lparr>hourly =
           (if \<exists>x\<in>set (l # ls). hourly x = None then None
            else Some (Max {n. \<exists>x\<in>set (l # ls). hourly x = Some n})),
         daily =
           (if \<exists>x\<in>set (l # ls). daily x = None then None
            else Some (Max {n. \<exists>x\<in>set (l # ls). daily x = Some n})),
         monthly =
           (if \<exists>x\<in>set (l # ls). monthly x = None then None
            else Some (Max {n. \<exists>x\<in>set (l # ls). monthly x = Some n}))\<rparr>"
    by (rule periods.equality)
      (simp_all add: foldl_merge_limits_sel merged_period del: set_simps)
  then show ?thesis using Cons by (simp add: resolve_def)
qed

text \<open>
  Claim C2. With \<^verbatim>\<open>resolve\<close> as the spec describes it: the result is the same for any
  permutation of the tags. Let \<open>T\<close> be the limit triples of the tags that have an entry in
  the configuration. When \<open>T\<close> is empty the result is the entry of "none". Otherwise each
  period of the result is merged on its own: it is unbounded when some triple of \<open>T\<close> is
  unbounded for that period, and the maximum of the finite limits of \<open>T\<close> for that period
  when all are finite.
\<close>

theorem resolve_most_permissive_order_independent:
  assumes "mset tags' = mset tags"
    and "T = {ls. \<exists>t\<in>set tags. map_of config t = Some ls}"
  shows "resolve tags' config = resolve tags config \<and>
     (T = {} \<longrightarrow> resolve tags config = map_of config ''none'') \<and>
     (T \<noteq> {} \<longrightarrow>
        (\<exists>r. resolve tags config = Some r \<and>
           hourly r = (if \<exists>x\<in>T. hourly x = None then None
                       else Some (Max {n. \<exists>x\<in>T. hourly x = Some n})) \<and>
           daily r = (if \<exists>x\<in>T. daily x = None then None
                      else Some (Max {n. \<exists>x\<in>T. daily x = Some n})) \<and>
           monthly r = (if \<exists>x\<in>T. monthly x = None then None
                        else Some (Max {n. \<exists>x\<in>T. monthly x = Some n}))))"
proof -
  have T: "set (applicable tags config) = T"
    unfolding assms(2) by (rule set_applicable)
  have "set tags' = set tags" using assms(1) by (rule mset_eq_setD)
  then have eq: "set (applicable tags' config) = set (applicable tags config)"
    by (simp add: set_applicable)
  have perm: "resolve tags' config = resolve tags config"
    unfolding resolve_set eq ..
  have empty: "T = {} \<longrightarrow> resolve tags config = map_of config ''none''"
    unfolding resolve_set T by simp
  have merged: "T \<noteq> {} \<longrightarrow>
        (\<exists>r. resolve tags config = Some r \<and>
           hourly r = (if \<exists>x\<in>T. hourly x = None then None
                       else Some (Max {n. \<exists>x\<in>T. hourly x = Some n})) \<and>
           daily r = (if \<exists>x\<in>T. daily x = None then None
                      else Some (Max {n. \<exists>x\<in>T. daily x = Some n})) \<and>
           monthly r = (if \<exists>x\<in>T. monthly x = None then None
                        else Some (Max {n. \<exists>x\<in>T. monthly x = Some n})))"
    unfolding resolve_set T by simp
  from perm empty merged show ?thesis by blast
qed

theorem resolve_most_permissive_order_independent_witness:
  "mset [''pro'', ''starter''] = mset [''starter'', ''pro''] \<and>
   {ls. \<exists>t\<in>set [''starter'', ''pro'']. map_of example_config t = Some ls} =
     {\<lparr>hourly = Some 10, daily = Some 50, monthly = Some 500\<rparr>,
      \<lparr>hourly = None, daily = None, monthly = None\<rparr>} \<and>
   resolve [''pro'', ''starter''] example_config = resolve [''starter'', ''pro''] example_config \<and>
   resolve [''starter'', ''pro''] example_config =
     Some \<lparr>hourly = None, daily = None, monthly = None\<rparr> \<and>
   resolve [''starter'', ''none''] example_config =
     Some \<lparr>hourly = Some 10, daily = Some 50, monthly = Some 500\<rparr> \<and>
   resolve [''gold''] example_config =
     Some \<lparr>hourly = Some 5, daily = Some 20, monthly = Some 100\<rparr>"
proof -
  have p: "mset [''pro'', ''starter''] = mset [''starter'', ''pro'']"
    by simp
  have t: "{ls. \<exists>t\<in>set [''starter'', ''pro'']. map_of example_config t = Some ls} =
     {\<lparr>hourly = Some 10, daily = Some 50, monthly = Some 500\<rparr>,
      \<lparr>hourly = None, daily = None, monthly = None\<rparr>}"
    by (auto simp add: example_config_def)
  have v: "resolve [''starter'', ''pro''] example_config =
     Some \<lparr>hourly = None, daily = None, monthly = None\<rparr>"
    by (simp add: example_defs)
  have w: "resolve [''starter'', ''none''] example_config =
     Some \<lparr>hourly = Some 10, daily = Some 50, monthly = Some 500\<rparr>"
    by (simp add: example_defs)
  have g: "resolve [''gold''] example_config =
     Some \<lparr>hourly = Some 5, daily = Some 20, monthly = Some 100\<rparr>"
    by (simp add: example_defs)
  have "resolve [''pro'', ''starter''] example_config =
      resolve [''starter'', ''pro''] example_config"
    using resolve_most_permissive_order_independent [OF p t [symmetric]] by blast
  with p t v w g show ?thesis by blast
qed

end
